theory Spec2Isabelle
  imports Main "HOL-Library.Word"
begin

section \<open>JavaScript strings and the string operations the component calls\<close>

text \<open>
  The component \<^verbatim>\<open>CleaningForm\<close> (src/components/CleaningForm.tsx) works on JavaScript
  strings, which are sequences of 16-bit UTF-16 code units. \<^verbatim>\<open>slice\<close>, \<^verbatim>\<open>trim\<close>,
  \<^verbatim>\<open>match\<close> and property lookup all work on code units, so a string is modelled as a
  list of 16-bit words. A literal of the source is written with \<open>js\<close>, which embeds a
  Latin-1 text (every literal of the component is Latin-1) code point by code point.
\<close>

type_synonym jschar = "16 word"
type_synonym jsstring = "jschar list"

definition js :: "string \<Rightarrow> jsstring" where
  "js s = map (\<lambda>c. of_nat (of_char c)) s"

text \<open>
  \<^verbatim>\<open>String.prototype.slice(start)\<close> with the end omitted: a negative start counts from
  the end and is clamped at 0, a start past the end is clamped at the length.
\<close>

definition slice_from :: "jsstring \<Rightarrow> int \<Rightarrow> jsstring" where
  "slice_from s start =
     (let len = int (length s);
          from = (if start < 0 then max (len + start) 0 else min start len)
      in drop (nat from) s)"

text \<open>
  \<^verbatim>\<open>String.prototype.trim\<close> removes leading and trailing code units that are WhiteSpace
  or LineTerminator in ECMAScript: TAB, LF, VT, FF, CR, SPACE, NBSP, the Unicode space
  separators, LS, PS and the byte order mark.
\<close>

definition isWhiteSpace :: "jschar \<Rightarrow> bool" where
  "isWhiteSpace c =
     (c = 0x0009 \<or> c = 0x000A \<or> c = 0x000B \<or> c = 0x000C \<or> c = 0x000D \<or> c = 0x0020 \<or>
      c = 0x00A0 \<or> c = 0x1680 \<or> (0x2000 \<le> c \<and> c \<le> 0x200A) \<or> c = 0x2028 \<or>
      c = 0x2029 \<or> c = 0x202F \<or> c = 0x205F \<or> c = 0x3000 \<or> c = 0xFEFF)"

definition trim :: "jsstring \<Rightarrow> jsstring" where
  "trim s = rev (dropWhile isWhiteSpace (rev (dropWhile isWhiteSpace s)))"

text \<open>\<^verbatim>\<open>Array.prototype.join(sep)\<close> on an array of strings.\<close>

fun join :: "jsstring list \<Rightarrow> jsstring \<Rightarrow> jsstring" where
  "join [] sep = []"
| "join [x] sep = x"
| "join (x # y # ys) sep = x @ sep @ join (y # ys) sep"

text \<open>A string in a boolean position is true exactly when it is not empty.\<close>

definition truthy :: "jsstring \<Rightarrow> bool" where
  "truthy s = (s \<noteq> [])"

section \<open>The regular expression of \<^verbatim>\<open>isSpecialRoom\<close>\<close>

text \<open>
  The component tests the room number with \<^verbatim>\<open>roomNumber.match(/[GMBP]1$/)\<close>. The
  pattern has no flags: it is case sensitive, and \<^verbatim>\<open>$\<close> holds at the end of the input
  only. The fragment of regular expressions it uses is a sequence of terms, each a
  character class, a literal or the end assertion. \<open>match_here\<close> matches the sequence
  at the start of the remaining input, and \<open>re_search\<close> tries every start index from
  left to right, as an unanchored search does.
\<close>

datatype re_term = CharClass "jschar list" | Literal jschar | AssertEnd

fun match_here :: "re_term list \<Rightarrow> jsstring \<Rightarrow> bool" where
  "match_here [] s = True"
| "match_here (CharClass cs # r) [] = False"
| "match_here (CharClass cs # r) (c # s) = (c \<in> set cs \<and> match_here r s)"
| "match_here (Literal x # r) [] = False"
| "match_here (Literal x # r) (c # s) = (c = x \<and> match_here r s)"
| "match_here (AssertEnd # r) s = (s = [] \<and> match_here r s)"

fun re_search :: "re_term list \<Rightarrow> jsstring \<Rightarrow> bool" where
  "re_search p [] = match_here p []"
| "re_search p (c # s) = (match_here p (c # s) \<or> re_search p s)"

definition specialRoomPattern :: "re_term list" where
  "specialRoomPattern = [CharClass (js ''GMBP''), Literal 0x31, AssertEnd]"

section \<open>Data of the component\<close>

text \<open>
  The draft \<^verbatim>\<open>formData\<close> has the fields of \<^verbatim>\<open>Omit<CleaningTask, 'id'>\<close>, as the
  initial state of the component lists them.
\<close>

record CleaningTask =
  date :: jsstring
  time :: jsstring
  roomNumber :: jsstring
  visualCleaning :: bool
  maintenanceCleaning :: bool
  basicRoomCleaning :: bool
  bedCleaning :: bool
  windowsCurtainsCleaning :: bool
  "notes" :: jsstring
  staffName :: jsstring

text \<open>A thrown value or a rejection reason.\<close>

type_synonym js_error = jsstring

text \<open>
  The props. \<open>onSave\<close> is the caller's callback: \<open>None\<close> when it returns, \<open>Some e\<close>
  when it throws \<open>e\<close>. The prop \<^verbatim>\<open>roomNumber\<close> is \<open>roomNumberProp\<close> here, the draft
  has a field of the same name.
\<close>

record Props =
  roomNumberProp :: jsstring
  onSave :: "CleaningTask \<Rightarrow> js_error option"
  initialCompletedToday :: bool

text \<open>The four \<^verbatim>\<open>useState\<close> cells of the component.\<close>

record FormState =
  completedToday :: bool
  error :: jsstring
  images :: "jsstring list"
  formData :: CleaningTask

text \<open>The variables object handed to \<^verbatim>\<open>emailjs.send\<close> as its third argument.\<close>

record TemplateVars =
  to_email :: jsstring
  room_number :: jsstring
  notes_var :: jsstring
  images_var :: jsstring
  date_var :: jsstring

text \<open>
  What a submission reads from outside the component: the two clock readings, already
  formatted (\<open>localeString\<close> is \<^verbatim>\<open>new Date().toLocaleString('de-DE')\<close> inside
  \<^verbatim>\<open>sendEmailNotification\<close>, \<open>localeTimeString\<close> is
  \<^verbatim>\<open>new Date().toLocaleTimeString('de-DE', ...)\<close> in the argument of \<^verbatim>\<open>onSave\<close>),
  and the behaviour of the mail provider: \<open>emailjs_send\<close> is \<open>None\<close> when the promise
  of \<^verbatim>\<open>emailjs.send\<close> resolves and \<open>Some e\<close> when the call throws or the promise
  rejects with \<open>e\<close>.
\<close>

record Env =
  localeString :: jsstring
  localeTimeString :: jsstring
  emailjs_send :: "jsstring \<Rightarrow> jsstring \<Rightarrow> TemplateVars \<Rightarrow> jsstring \<Rightarrow> js_error option"

text \<open>The calls a submission makes to the outside, in the order it makes them.\<close>

datatype effect =
  EmailSend jsstring jsstring TemplateVars jsstring
| ConsoleError jsstring js_error
| OnSave CleaningTask

text \<open>
  The result of an asynchronous handler: the state cells after it, the calls it made,
  and the reason its promise rejected with (\<open>None\<close> when it resolved).
\<close>

record Outcome =
  newState :: FormState
  effects :: "effect list"
  thrown :: "js_error option"

section \<open>The functions of the component\<close>

text \<open>
  The initial state, from the \<^verbatim>\<open>useState\<close> initialisers. \<open>today\<close> is
  \<^verbatim>\<open>new Date().toISOString().split('T')[0]\<close> and \<open>now\<close> the formatted time at mount.
\<close>

definition initialState :: "Props \<Rightarrow> jsstring \<Rightarrow> jsstring \<Rightarrow> FormState" where
  "initialState props today now =
     \<lparr>completedToday = initialCompletedToday props,
      error = [],
      images = [],
      formData = \<lparr>date = today, time = now, roomNumber = roomNumberProp props,
        visualCleaning = False, maintenanceCleaning = False, basicRoomCleaning = False,
        bedCleaning = False, windowsCurtainsCleaning = False,
        notes = [], staffName = []\<rparr>\<rparr>"

text \<open>
  The table of \<^verbatim>\<open>getRoomLabel\<close>, in the order of the object literal. The a-umlaut of
  the first label is the code unit 0xE4. The lookup \<^verbatim>\<open>specialRooms[suffix]\<close> is
  \<open>map_of specialRooms suffix\<close>: \<open>suffix\<close> has at most two code units, and no property
  inherited from \<^verbatim>\<open>Object.prototype\<close> has a name that short, so only the four own
  keys can be found.
\<close>

definition specialRooms :: "(jsstring \<times> jsstring) list" where
  "specialRooms =
     [(js ''G1'', js (''G'' @ [CHR 0xE4] @ ''ste WC'')),
      (js ''M1'', js ''Mitarbeiter WC''),
      (js ''B1'', js ''Behinderten WC''),
      (js ''P1'', js ''Pflegebad'')]"

definition getRoomLabel :: "jsstring \<Rightarrow> jsstring" where
  "getRoomLabel number =
     (let suffix = slice_from number (- 2)
      in case map_of specialRooms suffix of
           Some label \<Rightarrow> if truthy label then label else number
         | None \<Rightarrow> number)"

text \<open>
  \<^verbatim>\<open>const isSpecialRoom = roomNumber.match(/[GMBP]1$/)\<close> is used as a condition only
  (\<^verbatim>\<open>!isSpecialRoom\<close>): the match array is true, \<^verbatim>\<open>null\<close> is false.
\<close>

definition isSpecialRoom :: "jsstring \<Rightarrow> bool" where
  "isSpecialRoom roomNumber' = re_search specialRoomPattern roomNumber'"

definition failedToSendMessage :: jsstring where
  "failedToSendMessage = js ''Failed to send email notification:''"

text \<open>
  The \<^verbatim>\<open>try\<close> block of \<^verbatim>\<open>sendEmailNotification\<close>: it builds \<^verbatim>\<open>templateParams\<close> and
  awaits \<^verbatim>\<open>emailjs.send\<close>. The result is the calls made and the exception that leaves
  the block, if any.
\<close>

definition sendEmailNotification_try ::
  "Env \<Rightarrow> jsstring \<Rightarrow> jsstring \<Rightarrow> jsstring list \<Rightarrow> effect list \<times> js_error option" where
  "sendEmailNotification_try env notes' roomNumber' images' =
     (let to_email' = js ''b.marconi@kv-vorderpfalz.drk.de'';
          room_number' = roomNumber';
          notes'' = notes';
          images'' = join images' (js [CHR 0x0A]);
          date' = localeString env;
          service_id = js ''service_drk'';
          template_id = js ''template_notes'';
          user_id = js ''your_public_key'';
          vars = \<lparr>to_email = to_email', room_number = room_number', notes_var = notes'',
                  images_var = images'', date_var = date'\<rparr>
      in ([EmailSend service_id template_id vars user_id],
          emailjs_send env service_id template_id vars user_id))"

text \<open>
  \<^verbatim>\<open>sendEmailNotification\<close>: the \<^verbatim>\<open>catch\<close> clause logs whatever left the \<^verbatim>\<open>try\<close> block
  with \<^verbatim>\<open>console.error\<close> and returns.
\<close>

definition sendEmailNotification ::
  "Env \<Rightarrow> jsstring \<Rightarrow> jsstring \<Rightarrow> jsstring list \<Rightarrow> effect list \<times> js_error option" where
  "sendEmailNotification env notes' roomNumber' images' =
     (case sendEmailNotification_try env notes' roomNumber' images' of
        (tr, None) \<Rightarrow> (tr, None)
      | (tr, Some e) \<Rightarrow> (tr @ [ConsoleError failedToSendMessage e], None))"

definition hasSelectedCleaning :: "CleaningTask \<Rightarrow> bool" where
  "hasSelectedCleaning fd =
     (visualCleaning fd \<or> maintenanceCleaning fd \<or> basicRoomCleaning fd \<or>
      bedCleaning fd \<or> windowsCurtainsCleaning fd)"

definition selectCleaningMessage :: jsstring where
  "selectCleaningMessage =
     js (''Bitte w'' @ [CHR 0xE4] @ ''hlen Sie mindestens eine Reinigungsart aus'')"

text \<open>The updater of the last \<^verbatim>\<open>setFormData\<close> of \<^verbatim>\<open>handleSubmit\<close>.\<close>

definition resetDraft :: "CleaningTask \<Rightarrow> CleaningTask" where
  "resetDraft prev =
     prev\<lparr>visualCleaning := False, maintenanceCleaning := False,
          basicRoomCleaning := False, bedCleaning := False,
          windowsCurtainsCleaning := False, notes := []\<rparr>"

text \<open>
  \<^verbatim>\<open>handleSubmit\<close>, run without another event of the form in between (the handler
  suspends only at the \<^verbatim>\<open>await\<close> of the notification). An exception of the awaited
  notification or of \<^verbatim>\<open>onSave\<close> leaves the handler at that point: the state updates
  made before it stay, the later ones are not made.
\<close>

definition handleSubmit :: "Props \<Rightarrow> Env \<Rightarrow> FormState \<Rightarrow> Outcome" where
  "handleSubmit props env st =
     (if \<not> hasSelectedCleaning (formData st)
      then \<lparr>newState = st\<lparr>error := selectCleaningMessage\<rparr>, effects = [], thrown = None\<rparr>
      else
        let st1 = st\<lparr>error := []\<rparr>;
            sent = (if truthy (trim (notes (formData st))) \<or> length (images st) > 0
                    then sendEmailNotification env (notes (formData st))
                           (roomNumberProp props) (images st)
                    else ([], None))
        in case snd sent of
             Some e \<Rightarrow> \<lparr>newState = st1, effects = fst sent, thrown = Some e\<rparr>
           | None \<Rightarrow>
               let task = (formData st)\<lparr>time := localeTimeString env\<rparr>
               in (case onSave props task of
                     Some e \<Rightarrow>
                       \<lparr>newState = st1, effects = fst sent @ [OnSave task], thrown = Some e\<rparr>
                   | None \<Rightarrow>
                       \<lparr>newState = st1\<lparr>completedToday := True, images := [],
                                        formData := resetDraft (formData st1)\<rparr>,
                        effects = fst sent @ [OnSave task],
                        thrown = None\<rparr>))"

text \<open>
  The events of the form: a submission (with what it reads from outside), the
  \<^verbatim>\<open>onChange\<close> handlers of the date input, of the five checkboxes and of the notes, and
  the \<^verbatim>\<open>onloadend\<close> of a file reader started by \<^verbatim>\<open>handleImageUpload\<close>. The last three
  checkboxes are rendered for a room that is not special only, so their events do not
  reach the state of a special room.
\<close>

datatype event =
  Submit Env
| ChangeDate jsstring
| ChangeVisualCleaning bool
| ChangeMaintenanceCleaning bool
| ChangeBasicRoomCleaning bool
| ChangeBedCleaning bool
| ChangeWindowsCurtainsCleaning bool
| ChangeNotes jsstring
| ImageLoaded jsstring

fun step :: "Props \<Rightarrow> FormState \<Rightarrow> event \<Rightarrow> FormState \<times> effect list" where
  "step props st (Submit env) =
     (newState (handleSubmit props env st), effects (handleSubmit props env st))"
| "step props st (ChangeDate d) = (st\<lparr>formData := (formData st)\<lparr>date := d\<rparr>\<rparr>, [])"
| "step props st (ChangeVisualCleaning b) =
     (st\<lparr>formData := (formData st)\<lparr>visualCleaning := b\<rparr>, error := []\<rparr>, [])"
| "step props st (ChangeMaintenanceCleaning b) =
     (st\<lparr>formData := (formData st)\<lparr>maintenanceCleaning := b\<rparr>, error := []\<rparr>, [])"
| "step props st (ChangeBasicRoomCleaning b) =
     (if isSpecialRoom (roomNumberProp props) then (st, [])
      else (st\<lparr>formData := (formData st)\<lparr>basicRoomCleaning := b\<rparr>, error := []\<rparr>, []))"
| "step props st (ChangeBedCleaning b) =
     (if isSpecialRoom (roomNumberProp props) then (st, [])
      else (st\<lparr>formData := (formData st)\<lparr>bedCleaning := b\<rparr>, error := []\<rparr>, []))"
| "step props st (ChangeWindowsCurtainsCleaning b) =
     (if isSpecialRoom (roomNumberProp props) then (st, [])
      else (st\<lparr>formData := (formData st)\<lparr>windowsCurtainsCleaning := b\<rparr>, error := []\<rparr>, []))"
| "step props st (ChangeNotes n) = (st\<lparr>formData := (formData st)\<lparr>notes := n\<rparr>\<rparr>, [])"
| "step props st (ImageLoaded img) = (st\<lparr>images := images st @ [img]\<rparr>, [])"

fun run :: "Props \<Rightarrow> FormState \<Rightarrow> event list \<Rightarrow> FormState \<times> effect list" where
  "run props st [] = (st, [])"
| "run props st (ev # evs) =
     (let (st', tr) = step props st ev;
          (st'', tr') = run props st' evs
      in (st'', tr @ tr'))"

fun isEmailSend :: "effect \<Rightarrow> bool" where
  "isEmailSend (EmailSend s t v u) = True"
| "isEmailSend (ConsoleError m e) = False"
| "isEmailSend (OnSave task) = False"

fun isOnSave :: "effect \<Rightarrow> bool" where
  "isOnSave (OnSave task) = True"
| "isOnSave (EmailSend s t v u) = False"
| "isOnSave (ConsoleError m e) = False"

text \<open>
  The calls of the conditional statement of \<^verbatim>\<open>handleSubmit\<close> that awaits
  \<^verbatim>\<open>sendEmailNotification\<close>: those of the notification when the condition holds, none
  otherwise.
\<close>

definition dispatched :: "Props \<Rightarrow> Env \<Rightarrow> FormState \<Rightarrow> effect list" where
  "dispatched props env st =
     (if truthy (trim (notes (formData st))) \<or> images st \<noteq> []
      then fst (sendEmailNotification env (notes (formData st)) (roomNumberProp props)
                  (images st))
      else [])"

text \<open>
  The service identifier, template identifier, public key and recipient of every call of
  \<^verbatim>\<open>emailjs.send\<close> in a list of calls.
\<close>

fun sendConfigs :: "effect list \<Rightarrow> (jsstring \<times> jsstring \<times> jsstring \<times> jsstring) list" where
  "sendConfigs [] = []"
| "sendConfigs (EmailSend s t v u # es) = (s, t, u, to_email v) # sendConfigs es"
| "sendConfigs (ConsoleError m e # es) = sendConfigs es"
| "sendConfigs (OnSave task # es) = sendConfigs es"

section \<open>Scenarios\<close>

text \<open>
  Two mounted forms, a standard room and a special room, and two environments: one
  where the mail provider accepts the message and one where it rejects it.
\<close>

definition room101 :: Props where
  "room101 = \<lparr>roomNumberProp = js ''101'', onSave = (\<lambda>task. None),
              initialCompletedToday = False\<rparr>"

definition roomG1 :: Props where
  "roomG1 = \<lparr>roomNumberProp = js ''G1'', onSave = (\<lambda>task. None),
             initialCompletedToday = True\<rparr>"

definition providerUp :: Env where
  "providerUp = \<lparr>localeString = js ''2.11.2026, 09:30:05'', localeTimeString = js ''09:30'',
                 emailjs_send = (\<lambda>s t v u. None)\<rparr>"

definition providerDown :: Env where
  "providerDown = \<lparr>localeString = js ''3.11.2026, 14:05:10'', localeTimeString = js ''14:05'',
                   emailjs_send = (\<lambda>s t v u. Some (js ''Network Error''))\<rparr>"

definition mounted101 :: FormState where
  "mounted101 = initialState room101 (js ''2026-11-02'') (js ''08:00'')"

definition mountedG1 :: FormState where
  "mountedG1 = initialState roomG1 (js ''2026-11-03'') (js ''13:45'')"

text \<open>
  Drafts of these forms: room 101 with the first checkbox ticked and nothing else; the
  same with notes of two spaces; room 101 with a checkbox ticked and notes written; and
  the special room with a photo attached and no checkbox ticked.
\<close>

definition draft101 :: FormState where
  "draft101 = mounted101\<lparr>formData := (formData mounted101)\<lparr>visualCleaning := True\<rparr>\<rparr>"

definition draft101Blank :: FormState where
  "draft101Blank =
     mounted101\<lparr>formData := (formData mounted101)\<lparr>visualCleaning := True,
       notes := js ''  ''\<rparr>\<rparr>"

definition draft101Notes :: FormState where
  "draft101Notes =
     mounted101\<lparr>formData := (formData mounted101)\<lparr>bedCleaning := True,
       notes := js '' Lampe defekt''\<rparr>\<rparr>"

definition draftG1Photo :: FormState where
  "draftG1Photo = mountedG1\<lparr>images := [js ''data:image/png;base64,AAAA'']\<rparr>"

text \<open>The special room with the second checkbox ticked and two photos attached.\<close>

definition draftG1Photos :: FormState where
  "draftG1Photos =
     mountedG1\<lparr>formData := (formData mountedG1)\<lparr>maintenanceCleaning := True\<rparr>,
       images := [js ''data:image/png;base64,AAAA'', js ''data:image/jpeg;base64,BBBB'']\<rparr>"

text \<open>
  A day of room 101: a checkbox is ticked and the form submitted, then another checkbox
  is ticked, notes are written, and the form is submitted again while the provider is
  down.
\<close>

definition twoCommits :: "event list" where
  "twoCommits = [ChangeVisualCleaning True, Submit providerUp,
                 ChangeMaintenanceCleaning True, ChangeNotes (js ''Boden nass''),
                 Submit providerDown]"

section \<open>Strings and the room classifier\<close>

lemma slice_from_last_two: "slice_from s (- 2) = drop (length s - 2) s"
  by (simp add: slice_from_def Let_def max_def nat_diff_distrib')

lemma drop_last_two_iff:
  "(drop (length s - 2) s = [c, d]) = (\<exists>p. s = p @ [c, d])"
proof
  assume h: "drop (length s - 2) s = [c, d]"
  have "s = take (length s - 2) s @ drop (length s - 2) s" by simp
  with h have "s = take (length s - 2) s @ [c, d]" by simp
  then show "\<exists>p. s = p @ [c, d]" by blast
next
  assume "\<exists>p. s = p @ [c, d]"
  then show "drop (length s - 2) s = [c, d]" by auto
qed

lemma match_here_specialRoomPattern:
  "match_here specialRoomPattern s = (\<exists>c \<in> set (js ''GMBP''). s = [c, 0x31])"
proof (cases s)
  case Nil
  then show ?thesis by (simp add: specialRoomPattern_def)
next
  case (Cons a t)
  then show ?thesis
    by (cases t) (auto simp add: specialRoomPattern_def)
qed

lemma re_search_specialRoomPattern:
  "re_search specialRoomPattern s = (\<exists>p. \<exists>c \<in> set (js ''GMBP''). s = p @ [c, 0x31])"
proof (induction s)
  case Nil
  show ?case by (simp add: match_here_specialRoomPattern)
next
  case (Cons a s)
  show ?case
  proof
    assume "re_search specialRoomPattern (a # s)"
    then consider "match_here specialRoomPattern (a # s)" | "re_search specialRoomPattern s"
      by auto
    then show "\<exists>p. \<exists>c \<in> set (js ''GMBP''). a # s = p @ [c, 0x31]"
    proof cases
      case 1
      then obtain c where "c \<in> set (js ''GMBP'')" "a # s = [] @ [c, 0x31]"
        by (auto simp: match_here_specialRoomPattern)
      then show ?thesis by blast
    next
      case 2
      with Cons.IH obtain p c where c: "c \<in> set (js ''GMBP'')" and "s = p @ [c, 0x31]"
        by blast
      then have "a # s = (a # p) @ [c, 0x31]" by simp
      with c show ?thesis by blast
    qed
  next
    assume "\<exists>p. \<exists>c \<in> set (js ''GMBP''). a # s = p @ [c, 0x31]"
    then obtain p c where c: "c \<in> set (js ''GMBP'')" and e: "a # s = p @ [c, 0x31]"
      by blast
    show "re_search specialRoomPattern (a # s)"
    proof (cases p)
      case Nil
      with e c have "match_here specialRoomPattern (a # s)"
        by (auto simp: match_here_specialRoomPattern)
      then show ?thesis by simp
    next
      case (Cons b q)
      with e have "s = q @ [c, 0x31]" by simp
      with c Cons.IH have "re_search specialRoomPattern s" by blast
      then show ?thesis by simp
    qed
  qed
qed

lemma specialRooms_dom:
  "(map_of specialRooms k \<noteq> None) = (\<exists>c \<in> set (js ''GMBP''). k = [c, 0x31])"
  by (auto simp add: specialRooms_def js_def)

lemma lookup_iff_regex:
  "(map_of specialRooms (slice_from n (- 2)) \<noteq> None) = isSpecialRoom n"
  unfolding isSpecialRoom_def re_search_specialRoomPattern specialRooms_dom slice_from_last_two
  by (auto simp add: drop_last_two_iff)

lemma dropWhile_all_iff: "(\<forall>x \<in> set (dropWhile P s). P x) = (\<forall>x \<in> set s. P x)"
  by (induction s) auto

lemma trim_empty_iff: "(trim s = []) = (\<forall>c \<in> set s. isWhiteSpace c)"
  by (simp add: trim_def dropWhile_all_iff)

section \<open>The notification and the submission, case by case\<close>

lemma selectCleaningMessage_truthy: "truthy selectCleaningMessage"
  by (simp add: truthy_def selectCleaningMessage_def js_def)

lemma sendEmailNotification_try_calls:
  "fst (sendEmailNotification_try env n rn im) =
     [EmailSend (js ''service_drk'') (js ''template_notes'')
        \<lparr>to_email = js ''b.marconi@kv-vorderpfalz.drk.de'', room_number = rn,
         notes_var = n, images_var = join im (js [CHR 0x0A]), date_var = localeString env\<rparr>
        (js ''your_public_key'')]"
  by (simp add: sendEmailNotification_try_def Let_def)

lemma sendEmailNotification_caught: "snd (sendEmailNotification env n rn im) = None"
  by (simp add: sendEmailNotification_def split: prod.splits option.splits)

lemma sendEmailNotification_calls:
  "fst (sendEmailNotification env n rn im) =
     fst (sendEmailNotification_try env n rn im) @
     (case snd (sendEmailNotification_try env n rn im) of
        None \<Rightarrow> [] | Some e \<Rightarrow> [ConsoleError failedToSendMessage e])"
  by (simp add: sendEmailNotification_def split: prod.splits option.splits)

lemma handleSubmit_valid:
  assumes "hasSelectedCleaning (formData st)"
  shows "handleSubmit props env st =
     (case onSave props ((formData st)\<lparr>time := localeTimeString env\<rparr>) of
        Some e \<Rightarrow>
          \<lparr>newState = st\<lparr>error := []\<rparr>,
           effects = dispatched props env st @
             [OnSave ((formData st)\<lparr>time := localeTimeString env\<rparr>)],
           thrown = Some e\<rparr>
      | None \<Rightarrow>
          \<lparr>newState = st\<lparr>error := [], completedToday := True, images := [],
                          formData := resetDraft (formData st)\<rparr>,
           effects = dispatched props env st @
             [OnSave ((formData st)\<lparr>time := localeTimeString env\<rparr>)],
           thrown = None\<rparr>)"
  using assms
  by (simp add: handleSubmit_def dispatched_def Let_def sendEmailNotification_caught
      split: option.splits)

lemma handleSubmit_invalid:
  assumes "\<not> hasSelectedCleaning (formData st)"
  shows "handleSubmit props env st =
     \<lparr>newState = st\<lparr>error := selectCleaningMessage\<rparr>, effects = [], thrown = None\<rparr>"
  using assms by (simp add: handleSubmit_def)

lemmas scenario_defs = room101_def roomG1_def providerUp_def providerDown_def mounted101_def
  mountedG1_def initialState_def draft101_def draft101Blank_def draft101Notes_def draftG1Photo_def

lemmas eval_defs = handleSubmit_def hasSelectedCleaning_def sendEmailNotification_def
  sendEmailNotification_try_def truthy_def trim_def isWhiteSpace_def resetDraft_def Let_def
  js_def selectCleaningMessage_def failedToSendMessage_def dispatched_def

section \<open>Validation\<close>

text \<open>
  Claim C1. When the five checklist booleans of the draft are all false, a submission is
  rejected: the error is the one fixed message (which is shown, being a non-empty
  string) and nothing is called. When at least one of them is true, validation
  succeeds: the error is cleared and the record is handed to \<^verbatim>\<open>onSave\<close>, after the
  notification calls if any. Both hold for every room number, every notes text and
  every list of photos.
\<close>

theorem validation_rule:
  "(\<not> visualCleaning (formData st) \<and> \<not> maintenanceCleaning (formData st) \<and>
    \<not> basicRoomCleaning (formData st) \<and> \<not> bedCleaning (formData st) \<and>
    \<not> windowsCurtainsCleaning (formData st) \<longrightarrow>
      error (newState (handleSubmit props env st)) = selectCleaningMessage \<and>
      truthy selectCleaningMessage \<and>
      effects (handleSubmit props env st) = []) \<and>
   (visualCleaning (formData st) \<or> maintenanceCleaning (formData st) \<or>
    basicRoomCleaning (formData st) \<or> bedCleaning (formData st) \<or>
    windowsCurtainsCleaning (formData st) \<longrightarrow>
      error (newState (handleSubmit props env st)) = [] \<and>
      effects (handleSubmit props env st) =
        dispatched props env st @ [OnSave ((formData st)\<lparr>time := localeTimeString env\<rparr>)])"
proof (cases "hasSelectedCleaning (formData st)")
  case True
  from handleSubmit_valid [OF True, of props env]
  have "error (newState (handleSubmit props env st)) = []"
    and "effects (handleSubmit props env st) =
        dispatched props env st @ [OnSave ((formData st)\<lparr>time := localeTimeString env\<rparr>)]"
    by (simp_all split: option.splits)
  with True show ?thesis by (simp add: hasSelectedCleaning_def)
next
  case False
  from handleSubmit_invalid [OF False, of props env]
  have "error (newState (handleSubmit props env st)) = selectCleaningMessage"
    and "effects (handleSubmit props env st) = []"
    by simp_all
  with False show ?thesis by (simp add: hasSelectedCleaning_def selectCleaningMessage_truthy)
qed

text \<open>
  The special room with a photo and no checkbox is rejected; room 101 with the bed
  checkbox and notes is accepted.
\<close>

theorem validation_rule_witness:
  "(\<not> visualCleaning (formData draftG1Photo) \<and> \<not> maintenanceCleaning (formData draftG1Photo) \<and>
    \<not> basicRoomCleaning (formData draftG1Photo) \<and> \<not> bedCleaning (formData draftG1Photo) \<and>
    \<not> windowsCurtainsCleaning (formData draftG1Photo)) \<and>
   images draftG1Photo = [js ''data:image/png;base64,AAAA''] \<and>
   error (newState (handleSubmit roomG1 providerUp draftG1Photo)) = selectCleaningMessage \<and>
   effects (handleSubmit roomG1 providerUp draftG1Photo) = [] \<and>
   bedCleaning (formData draft101Notes) \<and>
   error (newState (handleSubmit room101 providerUp draft101Notes)) = [] \<and>
   effects (handleSubmit room101 providerUp draft101Notes) =
     dispatched room101 providerUp draft101Notes @
     [OnSave ((formData draft101Notes)\<lparr>time := localeTimeString providerUp\<rparr>)]"
proof -
  have a: "\<not> visualCleaning (formData draftG1Photo) \<and> \<not> maintenanceCleaning (formData draftG1Photo) \<and>
    \<not> basicRoomCleaning (formData draftG1Photo) \<and> \<not> bedCleaning (formData draftG1Photo) \<and>
    \<not> windowsCurtainsCleaning (formData draftG1Photo)"
    by (simp add: scenario_defs)
  have b: "bedCleaning (formData draft101Notes)"
    by (simp add: scenario_defs)
  have c: "images draftG1Photo = [js ''data:image/png;base64,AAAA'']"
    by (simp add: scenario_defs)
  from validation_rule [of draftG1Photo roomG1 providerUp]
    validation_rule [of draft101Notes room101 providerUp] a b c
  show ?thesis by blast
qed

text \<open>
  Claim C6. A submission that fails validation sets the error message, which is shown,
  and changes nothing else: the draft and the photos are as before, the completion flag
  is as before, \<^verbatim>\<open>onSave\<close> is not called and no notification is sent.
\<close>

theorem rejected_keeps_draft:
  assumes "\<not> hasSelectedCleaning (formData st)"
  shows "handleSubmit props env st =
           \<lparr>newState = st\<lparr>error := selectCleaningMessage\<rparr>, effects = [], thrown = None\<rparr> \<and>
         truthy (error (newState (handleSubmit props env st))) \<and>
         formData (newState (handleSubmit props env st)) = formData st \<and>
         images (newState (handleSubmit props env st)) = images st \<and>
         completedToday (newState (handleSubmit props env st)) = completedToday st \<and>
         filter isOnSave (effects (handleSubmit props env st)) = [] \<and>
         filter isEmailSend (effects (handleSubmit props env st)) = [] \<and>
         step props st (Submit env) = (st\<lparr>error := selectCleaningMessage\<rparr>, [])"
  using handleSubmit_invalid [OF assms, of props env] selectCleaningMessage_truthy
  by simp

text \<open>The special room with a photo attached and no checkbox ticked.\<close>

theorem rejected_keeps_draft_witness:
  "\<not> hasSelectedCleaning (formData draftG1Photo) \<and>
   handleSubmit roomG1 providerUp draftG1Photo =
     \<lparr>newState = draftG1Photo\<lparr>error := selectCleaningMessage\<rparr>, effects = [], thrown = None\<rparr> \<and>
   images (newState (handleSubmit roomG1 providerUp draftG1Photo)) =
     [js ''data:image/png;base64,AAAA''] \<and>
   completedToday (newState (handleSubmit roomG1 providerUp draftG1Photo)) = True \<and>
   effects (handleSubmit roomG1 providerUp draftG1Photo) = []"
proof -
  have a: "\<not> hasSelectedCleaning (formData draftG1Photo)"
    by (simp add: scenario_defs hasSelectedCleaning_def)
  have b: "images draftG1Photo = [js ''data:image/png;base64,AAAA'']"
    and c: "completedToday draftG1Photo = True"
    by (simp_all add: scenario_defs)
  from rejected_keeps_draft [OF a, of roomG1 providerUp] a b c
  show ?thesis by simp
qed

section \<open>When a notification is sent\<close>

text \<open>
  Claim C2. On a submission that passes validation, \<^verbatim>\<open>emailjs.send\<close> is called exactly
  when the trimmed notes are not empty or there is at least one photo. In particular,
  notes of white space only and no photo cause no call.
\<close>

theorem notification_trigger:
  assumes "hasSelectedCleaning (formData st)"
  shows "(filter isEmailSend (effects (handleSubmit props env st)) \<noteq> []) =
           (trim (notes (formData st)) \<noteq> [] \<or> length (images st) > 0) \<and>
         ((\<forall>c \<in> set (notes (formData st)). isWhiteSpace c) \<and> images st = [] \<longrightarrow>
            filter isEmailSend (effects (handleSubmit props env st)) = [])"
proof -
  have e: "filter isEmailSend (effects (handleSubmit props env st)) =
           filter isEmailSend (dispatched props env st)"
    using handleSubmit_valid [OF assms, of props env] by (simp split: option.splits)
  have d: "(filter isEmailSend (dispatched props env st) \<noteq> []) =
           (trim (notes (formData st)) \<noteq> [] \<or> images st \<noteq> [])"
    by (simp add: dispatched_def truthy_def sendEmailNotification_calls
        sendEmailNotification_try_calls)
  from e d show ?thesis by (auto simp add: trim_empty_iff)
qed

text \<open>
  Notes of two spaces and no photo: no call. Notes with a text: a call.
\<close>

theorem notification_trigger_witness:
  "hasSelectedCleaning (formData draft101Blank) \<and>
   notes (formData draft101Blank) = [0x20, 0x20] \<and> images draft101Blank = [] \<and>
   filter isEmailSend (effects (handleSubmit room101 providerUp draft101Blank)) = [] \<and>
   hasSelectedCleaning (formData draft101Notes) \<and>
   trim (notes (formData draft101Notes)) = js ''Lampe defekt'' \<and>
   filter isEmailSend (effects (handleSubmit room101 providerUp draft101Notes)) \<noteq> []"
proof -
  have a: "hasSelectedCleaning (formData draft101Blank)"
    and b: "hasSelectedCleaning (formData draft101Notes)"
    by (simp_all add: scenario_defs hasSelectedCleaning_def)
  have c: "notes (formData draft101Blank) = [0x20, 0x20]" and d: "images draft101Blank = []"
    by (simp_all add: scenario_defs js_def)
  have w: "\<forall>c \<in> set (notes (formData draft101Blank)). isWhiteSpace c"
    by (simp add: c isWhiteSpace_def)
  have t: "trim (notes (formData draft101Notes)) = js ''Lampe defekt''"
    by (simp add: scenario_defs js_def trim_def isWhiteSpace_def)
  have n: "js ''Lampe defekt'' \<noteq> []" by (simp add: js_def)
  from notification_trigger [OF a, of room101 providerUp]
    notification_trigger [OF b, of room101 providerUp] a b c d w t n
  show ?thesis by simp
qed

section \<open>A failing mail provider\<close>

lemma dispatched_no_OnSave: "filter isOnSave (dispatched props env st) = []"
  by (simp add: dispatched_def sendEmailNotification_calls sendEmailNotification_try_calls
      split: option.splits)

text \<open>
  Claim C3. Whatever the mail provider does (\<open>f\<close> is any behaviour of
  \<^verbatim>\<open>emailjs.send\<close>, failing ones included), \<^verbatim>\<open>sendEmailNotification\<close> lets no exception
  out, and an exception of the \<^verbatim>\<open>try\<close> block is logged with \<^verbatim>\<open>console.error\<close> and
  nothing more. So on a submission that passes validation no error is shown, the record
  is handed to \<^verbatim>\<open>onSave\<close> once, and the state and the result of the handler are those
  that a provider of any other behaviour gives. When \<^verbatim>\<open>onSave\<close> returns, the handler
  resolves and \<^verbatim>\<open>completedToday\<close> is true afterwards.
\<close>

theorem notification_failure_absorbed:
  assumes "hasSelectedCleaning (formData st)"
  shows "snd (sendEmailNotification (env\<lparr>emailjs_send := f\<rparr>) n rn im) = None \<and>
    (snd (sendEmailNotification_try (env\<lparr>emailjs_send := f\<rparr>) n rn im) = Some e \<longrightarrow>
       fst (sendEmailNotification (env\<lparr>emailjs_send := f\<rparr>) n rn im) =
         fst (sendEmailNotification_try (env\<lparr>emailjs_send := f\<rparr>) n rn im) @
         [ConsoleError failedToSendMessage e]) \<and>
    error (newState (handleSubmit props (env\<lparr>emailjs_send := f\<rparr>) st)) = [] \<and>
    filter isOnSave (effects (handleSubmit props (env\<lparr>emailjs_send := f\<rparr>) st)) =
      [OnSave ((formData st)\<lparr>time := localeTimeString env\<rparr>)] \<and>
    newState (handleSubmit props (env\<lparr>emailjs_send := f\<rparr>) st) =
      newState (handleSubmit props env st) \<and>
    thrown (handleSubmit props (env\<lparr>emailjs_send := f\<rparr>) st) =
      thrown (handleSubmit props env st) \<and>
    (onSave props ((formData st)\<lparr>time := localeTimeString env\<rparr>) = None \<longrightarrow>
       thrown (handleSubmit props (env\<lparr>emailjs_send := f\<rparr>) st) = None \<and>
       completedToday (newState (handleSubmit props (env\<lparr>emailjs_send := f\<rparr>) st)))"
proof -
  let ?env = "env\<lparr>emailjs_send := f\<rparr>"
  let ?task = "(formData st)\<lparr>time := localeTimeString env\<rparr>"
  have 1: "snd (sendEmailNotification ?env n rn im) = None"
    by (rule sendEmailNotification_caught)
  have 2: "snd (sendEmailNotification_try ?env n rn im) = Some e \<longrightarrow>
       fst (sendEmailNotification ?env n rn im) =
         fst (sendEmailNotification_try ?env n rn im) @ [ConsoleError failedToSendMessage e]"
    by (simp add: sendEmailNotification_calls)
  note r = handleSubmit_valid [OF assms, of props ?env]
  note r0 = handleSubmit_valid [OF assms, of props env]
  have 3: "error (newState (handleSubmit props ?env st)) = []"
    using r by (simp split: option.splits)
  have 4: "filter isOnSave (effects (handleSubmit props ?env st)) = [OnSave ?task]"
    using r by (simp add: dispatched_no_OnSave split: option.splits)
  have 5: "newState (handleSubmit props ?env st) = newState (handleSubmit props env st)"
    and 6: "thrown (handleSubmit props ?env st) = thrown (handleSubmit props env st)"
    using r r0 by (simp_all split: option.splits)
  have 7: "onSave props ?task = None \<longrightarrow>
       thrown (handleSubmit props ?env st) = None \<and>
       completedToday (newState (handleSubmit props ?env st))"
    using r by simp
  from 1 2 3 4 5 6 7 show ?thesis by blast
qed

text \<open>Room 101 with notes, and a provider that rejects with a network error.\<close>

lemma providerDown_fails:
  "providerDown\<lparr>emailjs_send := (\<lambda>s t v u. Some (js ''Network Error''))\<rparr> = providerDown"
  by (simp add: providerDown_def)

theorem notification_failure_absorbed_witness:
  "hasSelectedCleaning (formData draft101Notes) \<and>
   onSave room101 ((formData draft101Notes)\<lparr>time := localeTimeString providerDown\<rparr>) = None \<and>
   snd (sendEmailNotification_try providerDown (js ''x'') (js ''101'') []) =
     Some (js ''Network Error'') \<and>
   sendEmailNotification providerDown (js ''x'') (js ''101'') [] =
     (fst (sendEmailNotification_try providerDown (js ''x'') (js ''101'') []) @
      [ConsoleError failedToSendMessage (js ''Network Error'')], None) \<and>
   thrown (handleSubmit room101 providerDown draft101Notes) = None \<and>
   error (newState (handleSubmit room101 providerDown draft101Notes)) = [] \<and>
   filter isOnSave (effects (handleSubmit room101 providerDown draft101Notes)) =
     [OnSave ((formData draft101Notes)\<lparr>time := js ''14:05''\<rparr>)] \<and>
   completedToday (newState (handleSubmit room101 providerDown draft101Notes)) \<and>
   ConsoleError failedToSendMessage (js ''Network Error'')
     \<in> set (effects (handleSubmit room101 providerDown draft101Notes))"
proof -
  have a: "hasSelectedCleaning (formData draft101Notes)"
    by (simp add: scenario_defs hasSelectedCleaning_def)
  have b: "onSave room101 ((formData draft101Notes)\<lparr>time := localeTimeString providerDown\<rparr>) = None"
    by (simp add: scenario_defs)
  have c: "snd (sendEmailNotification_try providerDown (js ''x'') (js ''101'') []) =
     Some (js ''Network Error'')"
    by (simp add: sendEmailNotification_try_def providerDown_def Let_def)
  have t: "localeTimeString providerDown = js ''14:05''"
    by (simp add: providerDown_def)
  have l: "ConsoleError failedToSendMessage (js ''Network Error'')
     \<in> set (effects (handleSubmit room101 providerDown draft101Notes))"
    by (simp add: scenario_defs eval_defs)
  from notification_failure_absorbed [OF a, where env = providerDown
      and f = "\<lambda>s t v u. Some (js ''Network Error'')" and n = "js ''x''"
      and rn = "js ''101''" and im = "[]" and e = "js ''Network Error''"
      and props = room101]
    a b c t l
  show ?thesis by (simp add: providerDown_fails prod_eq_iff)
qed

section \<open>The commit\<close>

text \<open>
  Claim C5, as the code has it. On a successful commit (validation passes and the
  handler resolves) the one record handed to \<^verbatim>\<open>onSave\<close> is the draft with its time
  set to the clock reading of the commit. The draft is then reset: the five checklist
  booleans are false, the notes are empty and the photos are empty. The date, the room
  number, the staff name and the time of the draft are what they were before the
  commit: the clock reading goes into the record only, not into the draft.
\<close>

theorem commit_stamps_record_and_resets_draft:
  assumes "hasSelectedCleaning (formData st)"
    and "thrown (handleSubmit props env st) = None"
  shows "filter isOnSave (effects (handleSubmit props env st)) =
           [OnSave ((formData st)\<lparr>time := localeTimeString env\<rparr>)] \<and>
         formData (newState (handleSubmit props env st)) =
           (formData st)\<lparr>visualCleaning := False, maintenanceCleaning := False,
              basicRoomCleaning := False, bedCleaning := False,
              windowsCurtainsCleaning := False, notes := []\<rparr> \<and>
         images (newState (handleSubmit props env st)) = [] \<and>
         date (formData (newState (handleSubmit props env st))) = date (formData st) \<and>
         roomNumber (formData (newState (handleSubmit props env st))) = roomNumber (formData st) \<and>
         staffName (formData (newState (handleSubmit props env st))) = staffName (formData st) \<and>
         time (formData (newState (handleSubmit props env st))) = time (formData st)"
proof (cases "onSave props ((formData st)\<lparr>time := localeTimeString env\<rparr>)")
  case None
  with handleSubmit_valid [OF assms(1), of props env]
  have r: "handleSubmit props env st =
      \<lparr>newState = st\<lparr>error := [], completedToday := True, images := [],
                      formData := resetDraft (formData st)\<rparr>,
       effects = dispatched props env st @ [OnSave ((formData st)\<lparr>time := localeTimeString env\<rparr>)],
       thrown = None\<rparr>"
    by simp
  show ?thesis
    by (simp add: r dispatched_no_OnSave resetDraft_def)
next
  case (Some e)
  with handleSubmit_valid [OF assms(1), of props env]
  have "thrown (handleSubmit props env st) = Some e" by simp
  with assms(2) show ?thesis by simp
qed

text \<open>Room 101 with notes, mounted at 08:00 and committed at 09:30.\<close>

theorem commit_stamps_record_and_resets_draft_witness:
  "hasSelectedCleaning (formData draft101Notes) \<and>
   thrown (handleSubmit room101 providerUp draft101Notes) = None \<and>
   filter isOnSave (effects (handleSubmit room101 providerUp draft101Notes)) =
     [OnSave \<lparr>date = js ''2026-11-02'', time = js ''09:30'', roomNumber = js ''101'',
        visualCleaning = False, maintenanceCleaning = False, basicRoomCleaning = False,
        bedCleaning = True, windowsCurtainsCleaning = False,
        notes = js '' Lampe defekt'', staffName = []\<rparr>] \<and>
   formData (newState (handleSubmit room101 providerUp draft101Notes)) =
     \<lparr>date = js ''2026-11-02'', time = js ''08:00'', roomNumber = js ''101'',
        visualCleaning = False, maintenanceCleaning = False, basicRoomCleaning = False,
        bedCleaning = False, windowsCurtainsCleaning = False,
        notes = [], staffName = []\<rparr> \<and>
   images (newState (handleSubmit room101 providerUp draft101Notes)) = []"
proof -
  have a: "hasSelectedCleaning (formData draft101Notes)"
    by (simp add: scenario_defs hasSelectedCleaning_def)
  have b: "thrown (handleSubmit room101 providerUp draft101Notes) = None"
    by (simp add: scenario_defs eval_defs)
  have c: "formData draft101Notes =
     \<lparr>date = js ''2026-11-02'', time = js ''08:00'', roomNumber = js ''101'',
        visualCleaning = False, maintenanceCleaning = False, basicRoomCleaning = False,
        bedCleaning = True, windowsCurtainsCleaning = False,
        notes = js '' Lampe defekt'', staffName = []\<rparr>"
    by (simp add: scenario_defs)
  have t: "localeTimeString providerUp = js ''09:30''"
    by (simp add: providerUp_def)
  from commit_stamps_record_and_resets_draft [OF a b] a b
  show ?thesis by (simp add: c t)
qed

text \<open>
  Claim C5 as stated says that the draft keeps the now-current time. Room 101, mounted
  at 08:00, is committed at 09:30: the record carries 09:30 and the draft still has
  08:00 afterwards.
\<close>

theorem draft_time_not_restamped:
  "hasSelectedCleaning (formData draft101) \<and>
   thrown (handleSubmit room101 providerUp draft101) = None \<and>
   effects (handleSubmit room101 providerUp draft101) =
     [OnSave ((formData draft101)\<lparr>time := js ''09:30''\<rparr>)] \<and>
   time (formData (newState (handleSubmit room101 providerUp draft101))) = js ''08:00'' \<and>
   time (formData (newState (handleSubmit room101 providerUp draft101))) \<noteq> js ''09:30''"
  by (simp add: scenario_defs eval_defs)

section \<open>The completion flag\<close>

lemma handleSubmit_completedToday:
  "completedToday st \<Longrightarrow> completedToday (newState (handleSubmit props env st))"
proof (cases "hasSelectedCleaning (formData st)")
  case True
  assume "completedToday st"
  with handleSubmit_valid [OF True, of props env] show ?thesis
    by (simp split: option.splits)
next
  case False
  assume "completedToday st"
  with handleSubmit_invalid [OF False, of props env] show ?thesis by simp
qed

lemma step_completedToday:
  "completedToday st \<Longrightarrow> completedToday (fst (step props st ev))"
  by (cases ev) (simp_all add: handleSubmit_completedToday)

lemma run_completedToday:
  "completedToday st \<Longrightarrow> completedToday (fst (run props st evs))"
proof (induction evs arbitrary: st)
  case Nil
  then show ?case by simp
next
  case (Cons ev evs)
  from Cons.prems have "completedToday (fst (step props st ev))"
    by (rule step_completedToday)
  then have "completedToday (fst (run props (fst (step props st ev)) evs))"
    by (rule Cons.IH)
  then show ?case by (simp add: split_def Let_def)
qed

lemma handleSubmit_ignores_completedToday:
  "effects (handleSubmit props env (st\<lparr>completedToday := b\<rparr>)) = effects (handleSubmit props env st) \<and>
   thrown (handleSubmit props env (st\<lparr>completedToday := b\<rparr>)) = thrown (handleSubmit props env st)"
  by (simp add: handleSubmit_def Let_def split: option.splits)

text \<open>
  Claim C7. No sequence of events of the form takes \<^verbatim>\<open>completedToday\<close> from true to
  false. After every successful submission it is true. A submission does not look at
  the flag (its calls and its result are the same for both values of the flag), so a
  valid draft of a room that is already completed is committed again: the record is
  handed to \<^verbatim>\<open>onSave\<close> and the flag stays true.
\<close>

theorem completedToday_never_reset:
  "(completedToday st \<longrightarrow> completedToday (fst (run props st evs))) \<and>
   (hasSelectedCleaning (formData st) \<and> thrown (handleSubmit props env st) = None \<longrightarrow>
      completedToday (newState (handleSubmit props env st))) \<and>
   (completedToday st \<and> hasSelectedCleaning (formData st) \<and>
    onSave props ((formData st)\<lparr>time := localeTimeString env\<rparr>) = None \<longrightarrow>
      thrown (handleSubmit props env st) = None \<and>
      filter isOnSave (effects (handleSubmit props env st)) =
        [OnSave ((formData st)\<lparr>time := localeTimeString env\<rparr>)] \<and>
      completedToday (newState (handleSubmit props env st))) \<and>
   effects (handleSubmit props env (st\<lparr>completedToday := b\<rparr>)) =
     effects (handleSubmit props env st) \<and>
   thrown (handleSubmit props env (st\<lparr>completedToday := b\<rparr>)) =
     thrown (handleSubmit props env st)"
proof -
  have 1: "completedToday st \<longrightarrow> completedToday (fst (run props st evs))"
    by (simp add: run_completedToday)
  have 2: "hasSelectedCleaning (formData st) \<and> thrown (handleSubmit props env st) = None \<longrightarrow>
      completedToday (newState (handleSubmit props env st))"
  proof
    assume h: "hasSelectedCleaning (formData st) \<and> thrown (handleSubmit props env st) = None"
    then have v: "hasSelectedCleaning (formData st)" by simp
    from h handleSubmit_valid [OF v, of props env]
    show "completedToday (newState (handleSubmit props env st))"
      by (cases "onSave props ((formData st)\<lparr>time := localeTimeString env\<rparr>)") simp_all
  qed
  have 3: "completedToday st \<and> hasSelectedCleaning (formData st) \<and>
    onSave props ((formData st)\<lparr>time := localeTimeString env\<rparr>) = None \<longrightarrow>
      thrown (handleSubmit props env st) = None \<and>
      filter isOnSave (effects (handleSubmit props env st)) =
        [OnSave ((formData st)\<lparr>time := localeTimeString env\<rparr>)] \<and>
      completedToday (newState (handleSubmit props env st))"
  proof
    assume h: "completedToday st \<and> hasSelectedCleaning (formData st) \<and>
      onSave props ((formData st)\<lparr>time := localeTimeString env\<rparr>) = None"
    then have v: "hasSelectedCleaning (formData st)" by simp
    from h handleSubmit_valid [OF v, of props env]
    show "thrown (handleSubmit props env st) = None \<and>
      filter isOnSave (effects (handleSubmit props env st)) =
        [OnSave ((formData st)\<lparr>time := localeTimeString env\<rparr>)] \<and>
      completedToday (newState (handleSubmit props env st))"
      by (simp add: dispatched_no_OnSave)
  qed
  from 1 2 3 handleSubmit_ignores_completedToday [of props env b st]
  show ?thesis by blast
qed

text \<open>
  Room 101 is committed twice on the same day: two records reach \<^verbatim>\<open>onSave\<close>, and the
  flag is true after the first commit and after the second.
\<close>

theorem completedToday_never_reset_witness:
  "completedToday (fst (run room101 mounted101 (take 2 twoCommits))) \<and>
   completedToday (fst (run room101 (fst (run room101 mounted101 (take 2 twoCommits)))
     (drop 2 twoCommits))) \<and>
   hasSelectedCleaning (formData (fst (run room101 mounted101 (take 4 twoCommits)))) \<and>
   onSave room101 ((formData (fst (run room101 mounted101 (take 4 twoCommits))))
     \<lparr>time := localeTimeString providerDown\<rparr>) = None \<and>
   thrown (handleSubmit room101 providerDown
     (fst (run room101 mounted101 (take 4 twoCommits)))) = None \<and>
   completedToday (newState (handleSubmit room101 providerDown
     (fst (run room101 mounted101 (take 4 twoCommits))))) \<and>
   filter isOnSave (snd (run room101 mounted101 twoCommits)) =
     [OnSave \<lparr>date = js ''2026-11-02'', time = js ''09:30'', roomNumber = js ''101'',
        visualCleaning = True, maintenanceCleaning = False, basicRoomCleaning = False,
        bedCleaning = False, windowsCurtainsCleaning = False, notes = [], staffName = []\<rparr>,
      OnSave \<lparr>date = js ''2026-11-02'', time = js ''14:05'', roomNumber = js ''101'',
        visualCleaning = False, maintenanceCleaning = True, basicRoomCleaning = False,
        bedCleaning = False, windowsCurtainsCleaning = False, notes = js ''Boden nass'',
        staffName = []\<rparr>]"
proof -
  let ?s2 = "fst (run room101 mounted101 (take 2 twoCommits))"
  let ?s4 = "fst (run room101 mounted101 (take 4 twoCommits))"
  have s2: "?s2 = \<lparr>completedToday = True, error = [], images = [],
      formData = \<lparr>date = js ''2026-11-02'', time = js ''08:00'', roomNumber = js ''101'',
        visualCleaning = False, maintenanceCleaning = False, basicRoomCleaning = False,
        bedCleaning = False, windowsCurtainsCleaning = False, notes = [], staffName = []\<rparr>\<rparr>"
    by (simp add: twoCommits_def scenario_defs eval_defs)
  have s4: "?s4 = \<lparr>completedToday = True, error = [], images = [],
      formData = \<lparr>date = js ''2026-11-02'', time = js ''08:00'', roomNumber = js ''101'',
        visualCleaning = False, maintenanceCleaning = True, basicRoomCleaning = False,
        bedCleaning = False, windowsCurtainsCleaning = False, notes = js ''Boden nass'',
        staffName = []\<rparr>\<rparr>"
    by (simp add: twoCommits_def scenario_defs eval_defs)
  have a: "completedToday ?s2" by (simp add: s2)
  have b: "completedToday ?s4 \<and> hasSelectedCleaning (formData ?s4) \<and>
    onSave room101 ((formData ?s4)\<lparr>time := localeTimeString providerDown\<rparr>) = None"
    unfolding s4 by (simp add: hasSelectedCleaning_def room101_def)
  have e: "filter isOnSave (snd (run room101 mounted101 twoCommits)) =
     [OnSave \<lparr>date = js ''2026-11-02'', time = js ''09:30'', roomNumber = js ''101'',
        visualCleaning = True, maintenanceCleaning = False, basicRoomCleaning = False,
        bedCleaning = False, windowsCurtainsCleaning = False, notes = [], staffName = []\<rparr>,
      OnSave \<lparr>date = js ''2026-11-02'', time = js ''14:05'', roomNumber = js ''101'',
        visualCleaning = False, maintenanceCleaning = True, basicRoomCleaning = False,
        bedCleaning = False, windowsCurtainsCleaning = False, notes = js ''Boden nass'',
        staffName = []\<rparr>]"
    by (simp add: twoCommits_def scenario_defs eval_defs)
  from completedToday_never_reset [of ?s2 room101 "drop 2 twoCommits" providerUp True] a
    completedToday_never_reset [of ?s4 room101 "[]" providerDown True] b e
  show ?thesis by blast
qed

section \<open>What a notification carries\<close>

lemma dispatched_sends:
  "filter isEmailSend (dispatched props env st) =
     (if truthy (trim (notes (formData st))) \<or> images st \<noteq> []
      then [EmailSend (js ''service_drk'') (js ''template_notes'')
              \<lparr>to_email = js ''b.marconi@kv-vorderpfalz.drk.de'',
               room_number = roomNumberProp props, notes_var = notes (formData st),
               images_var = join (images st) (js [CHR 0x0A]),
               date_var = localeString env\<rparr>
              (js ''your_public_key'')]
      else [])"
  by (simp add: dispatched_def sendEmailNotification_calls sendEmailNotification_try_calls
      split: option.splits)

lemma handleSubmit_sends:
  "filter isEmailSend (effects (handleSubmit props env st)) =
     (if hasSelectedCleaning (formData st) then filter isEmailSend (dispatched props env st)
      else [])"
proof (cases "hasSelectedCleaning (formData st)")
  case True
  with handleSubmit_valid [OF True, of props env] show ?thesis
    by (simp split: option.splits)
next
  case False
  with handleSubmit_invalid [OF False, of props env] show ?thesis by simp
qed

text \<open>
  Claim C8. A submission that sends a notification makes one call of
  \<^verbatim>\<open>emailjs.send\<close>, whose variables are the fixed recipient address, the room number
  of the props, the notes as written, the photos joined with a line feed between them,
  and the clock reading taken inside \<^verbatim>\<open>sendEmailNotification\<close>. The time of the draft
  and the clock reading that stamps the record have no part in it: changing them
  changes nothing of the call.
\<close>

theorem notification_payload:
  assumes "hasSelectedCleaning (formData st)"
    and "truthy (trim (notes (formData st))) \<or> images st \<noteq> []"
  shows "filter isEmailSend (effects (handleSubmit props env st)) =
           [EmailSend (js ''service_drk'') (js ''template_notes'')
              \<lparr>to_email = js ''b.marconi@kv-vorderpfalz.drk.de'',
               room_number = roomNumberProp props,
               notes_var = notes (formData st),
               images_var = join (images st) (js [CHR 0x0A]),
               date_var = localeString env\<rparr>
              (js ''your_public_key'')] \<and>
         filter isEmailSend (effects (handleSubmit props (env\<lparr>localeTimeString := t\<rparr>)
             (st\<lparr>formData := (formData st)\<lparr>time := t'\<rparr>\<rparr>))) =
           filter isEmailSend (effects (handleSubmit props env st))"
proof -
  have v: "hasSelectedCleaning (formData (st\<lparr>formData := (formData st)\<lparr>time := t'\<rparr>\<rparr>))"
    using assms(1) by (simp add: hasSelectedCleaning_def)
  show ?thesis
    using assms v by (simp add: handleSubmit_sends dispatched_sends)
qed

text \<open>
  The special room with two photos: the draft was mounted at 13:45, the notification
  carries the reading of its own dispatch, and the record is stamped 09:30.
\<close>

theorem notification_payload_witness:
  "hasSelectedCleaning (formData draftG1Photos) \<and>
   (truthy (trim (notes (formData draftG1Photos))) \<or> images draftG1Photos \<noteq> []) \<and>
   filter isEmailSend (effects (handleSubmit roomG1 providerUp draftG1Photos)) =
     [EmailSend (js ''service_drk'') (js ''template_notes'')
        \<lparr>to_email = js ''b.marconi@kv-vorderpfalz.drk.de'',
         room_number = js ''G1'',
         notes_var = [],
         images_var = js ''data:image/png;base64,AAAA'' @ [0x0A] @ js ''data:image/jpeg;base64,BBBB'',
         date_var = js ''2.11.2026, 09:30:05''\<rparr>
        (js ''your_public_key'')] \<and>
   time (formData draftG1Photos) = js ''13:45'' \<and>
   filter isOnSave (effects (handleSubmit roomG1 providerUp draftG1Photos)) =
     [OnSave ((formData draftG1Photos)\<lparr>time := js ''09:30''\<rparr>)]"
proof -
  have a: "hasSelectedCleaning (formData draftG1Photos)"
    by (simp add: draftG1Photos_def scenario_defs hasSelectedCleaning_def)
  have b: "truthy (trim (notes (formData draftG1Photos))) \<or> images draftG1Photos \<noteq> []"
    by (simp add: draftG1Photos_def scenario_defs)
  have c: "roomNumberProp roomG1 = js ''G1''" "notes (formData draftG1Photos) = []"
    "join (images draftG1Photos) (js [CHR 0x0A]) =
       js ''data:image/png;base64,AAAA'' @ [0x0A] @ js ''data:image/jpeg;base64,BBBB''"
    "localeString providerUp = js ''2.11.2026, 09:30:05''"
    "time (formData draftG1Photos) = js ''13:45''"
    by (simp_all add: draftG1Photos_def scenario_defs js_def)
  have d: "filter isOnSave (effects (handleSubmit roomG1 providerUp draftG1Photos)) =
     [OnSave ((formData draftG1Photos)\<lparr>time := js ''09:30''\<rparr>)]"
    by (simp add: draftG1Photos_def scenario_defs eval_defs)
  from notification_payload [OF a b, of roomG1 providerUp] a b d
  show ?thesis by (simp add: c)
qed

text \<open>
  Claim C9, as the code has it. The service identifier, the template identifier, the
  public key and the recipient address of every call of \<^verbatim>\<open>emailjs.send\<close> are the
  literals written in \<^verbatim>\<open>sendEmailNotification\<close>, for every props, every environment
  and every state: nothing outside the code supplies them.
\<close>

theorem dispatcher_configuration_is_literal:
  assumes "EmailSend s t v u \<in> set (effects (handleSubmit props env st))"
  shows "s = js ''service_drk'' \<and> t = js ''template_notes'' \<and> u = js ''your_public_key'' \<and>
         to_email v = js ''b.marconi@kv-vorderpfalz.drk.de'' \<and>
         sendConfigs (effects (handleSubmit props env st)) =
           [(js ''service_drk'', js ''template_notes'', js ''your_public_key'',
             js ''b.marconi@kv-vorderpfalz.drk.de'')]"
proof -
  from assms have m: "EmailSend s t v u \<in> set (filter isEmailSend (effects (handleSubmit props env st)))"
    by simp
  have ne: "filter isEmailSend (effects (handleSubmit props env st)) \<noteq> []"
    using assms by (auto simp add: filter_empty_conv intro!: bexI [of _ "EmailSend s t v u"])
  then have v: "hasSelectedCleaning (formData st)"
    and tr: "truthy (trim (notes (formData st))) \<or> images st \<noteq> []"
    by (auto simp add: handleSubmit_sends dispatched_sends split: if_splits)
  have f: "filter isEmailSend (effects (handleSubmit props env st)) =
           [EmailSend (js ''service_drk'') (js ''template_notes'')
              \<lparr>to_email = js ''b.marconi@kv-vorderpfalz.drk.de'',
               room_number = roomNumberProp props,
               notes_var = notes (formData st),
               images_var = join (images st) (js [CHR 0x0A]),
               date_var = localeString env\<rparr>
              (js ''your_public_key'')]"
    using v tr by (simp add: handleSubmit_sends dispatched_sends)
  have c: "sendConfigs es = sendConfigs (filter isEmailSend es)" for es
    by (induction es rule: sendConfigs.induct) simp_all
  from m [unfolded f] have "s = js ''service_drk'' \<and> t = js ''template_notes'' \<and> u = js ''your_public_key'' \<and>
         to_email v = js ''b.marconi@kv-vorderpfalz.drk.de''"
    by auto
  moreover have "sendConfigs (effects (handleSubmit props env st)) =
           [(js ''service_drk'', js ''template_notes'', js ''your_public_key'',
             js ''b.marconi@kv-vorderpfalz.drk.de'')]"
    by (simp add: c [of "effects (handleSubmit props env st)"] f)
  ultimately show ?thesis by blast
qed

text \<open>
  Claim C9 as stated says that the configuration is supplied from outside. Two
  deployments that differ in everything the component takes from outside (the room,
  the completion flag of the caller, the clock readings, the behaviour of the
  provider) send with the same four values, the literals of the code.
\<close>

theorem configuration_same_in_different_deployments:
  "roomNumberProp room101 \<noteq> roomNumberProp roomG1 \<and>
   initialCompletedToday room101 \<noteq> initialCompletedToday roomG1 \<and>
   localeString providerUp \<noteq> localeString providerDown \<and>
   localeTimeString providerUp \<noteq> localeTimeString providerDown \<and>
   emailjs_send providerUp [] [] \<lparr>to_email = [], room_number = [], notes_var = [],
     images_var = [], date_var = []\<rparr> [] \<noteq>
   emailjs_send providerDown [] [] \<lparr>to_email = [], room_number = [], notes_var = [],
     images_var = [], date_var = []\<rparr> [] \<and>
   sendConfigs (effects (handleSubmit room101 providerUp draft101Notes)) =
     [(js ''service_drk'', js ''template_notes'', js ''your_public_key'',
       js ''b.marconi@kv-vorderpfalz.drk.de'')] \<and>
   sendConfigs (effects (handleSubmit roomG1 providerDown draftG1Photos)) =
     [(js ''service_drk'', js ''template_notes'', js ''your_public_key'',
       js ''b.marconi@kv-vorderpfalz.drk.de'')]"
  by (simp add: draftG1Photos_def scenario_defs eval_defs)

text \<open>The call made for the special room with two photos while the provider is down.\<close>

theorem dispatcher_configuration_is_literal_witness:
  "EmailSend (js ''service_drk'') (js ''template_notes'')
        \<lparr>to_email = js ''b.marconi@kv-vorderpfalz.drk.de'',
         room_number = js ''G1'',
         notes_var = [],
         images_var = js ''data:image/png;base64,AAAA'' @ [0x0A] @ js ''data:image/jpeg;base64,BBBB'',
         date_var = js ''3.11.2026, 14:05:10''\<rparr>
        (js ''your_public_key'')
     \<in> set (effects (handleSubmit roomG1 providerDown draftG1Photos)) \<and>
   sendConfigs (effects (handleSubmit roomG1 providerDown draftG1Photos)) =
     [(js ''service_drk'', js ''template_notes'', js ''your_public_key'',
       js ''b.marconi@kv-vorderpfalz.drk.de'')]"
proof -
  have a: "EmailSend (js ''service_drk'') (js ''template_notes'')
        \<lparr>to_email = js ''b.marconi@kv-vorderpfalz.drk.de'',
         room_number = js ''G1'',
         notes_var = [],
         images_var = js ''data:image/png;base64,AAAA'' @ [0x0A] @ js ''data:image/jpeg;base64,BBBB'',
         date_var = js ''3.11.2026, 14:05:10''\<rparr>
        (js ''your_public_key'')
     \<in> set (effects (handleSubmit roomG1 providerDown draftG1Photos))"
    by (simp add: draftG1Photos_def scenario_defs eval_defs)
  from dispatcher_configuration_is_literal [OF a] a show ?thesis by blast
qed

section \<open>The room classifier\<close>

lemma specialRooms_labels_truthy: "map_of specialRooms k = Some l \<Longrightarrow> truthy l"
  by (auto simp add: specialRooms_def truthy_def js_def split: if_splits)

lemma slice_from_short: "length s < 2 \<Longrightarrow> slice_from s (- 2) = s"
  by (simp add: slice_from_last_two)

lemma specialRooms_keys_length: "map_of specialRooms k = Some l \<Longrightarrow> length k = 2"
  by (auto simp add: specialRooms_def js_def split: if_splits)

text \<open>
  Claim C4, as the code has it. For every room number, with no error case: when the
  last two code units are a key of the table, \<^verbatim>\<open>getRoomLabel\<close> returns the label of the
  table and the room is special; otherwise it returns the room number as it is and the
  room is not special. A room number shorter than two code units misses the lookup and
  is standard. The room 318G1 is special and its label is the German label of the
  table (G, a-umlaut, ste WC); the room 318 has the label 318 and is not special.
\<close>

theorem room_classifier:
  "(map_of specialRooms (slice_from n (- 2)) = Some l \<longrightarrow>
      getRoomLabel n = l \<and> isSpecialRoom n) \<and>
   (map_of specialRooms (slice_from n (- 2)) = None \<longrightarrow>
      getRoomLabel n = n \<and> \<not> isSpecialRoom n) \<and>
   (length n < 2 \<longrightarrow> getRoomLabel n = n \<and> \<not> isSpecialRoom n) \<and>
   getRoomLabel (js ''318G1'') = js (''G'' @ [CHR 0xE4] @ ''ste WC'') \<and>
   isSpecialRoom (js ''318G1'') \<and>
   getRoomLabel (js ''318'') = js ''318'' \<and> \<not> isSpecialRoom (js ''318'')"
proof -
  have 1: "map_of specialRooms (slice_from n (- 2)) = Some l \<longrightarrow>
      getRoomLabel n = l \<and> isSpecialRoom n"
  proof
    assume h: "map_of specialRooms (slice_from n (- 2)) = Some l"
    then have "truthy l" by (rule specialRooms_labels_truthy)
    with h have "getRoomLabel n = l" by (simp add: getRoomLabel_def)
    moreover from h have "isSpecialRoom n"
      using lookup_iff_regex [of n] by simp
    ultimately show "getRoomLabel n = l \<and> isSpecialRoom n" by simp
  qed
  have 2: "map_of specialRooms (slice_from n (- 2)) = None \<longrightarrow>
      getRoomLabel n = n \<and> \<not> isSpecialRoom n" for n
  proof
    assume h: "map_of specialRooms (slice_from n (- 2)) = None"
    then have "getRoomLabel n = n" by (simp add: getRoomLabel_def)
    moreover from h have "\<not> isSpecialRoom n"
      using lookup_iff_regex [of n] by simp
    ultimately show "getRoomLabel n = n \<and> \<not> isSpecialRoom n" by simp
  qed
  have 3: "length n < 2 \<longrightarrow> getRoomLabel n = n \<and> \<not> isSpecialRoom n"
  proof
    assume s: "length n < 2"
    have "map_of specialRooms (slice_from n (- 2)) = None"
    proof (cases "map_of specialRooms (slice_from n (- 2))")
      case None
      then show ?thesis .
    next
      case (Some l)
      then have "length (slice_from n (- 2)) = 2" by (rule specialRooms_keys_length)
      with s show ?thesis by (simp add: slice_from_short)
    qed
    with 2 [of n] show "getRoomLabel n = n \<and> \<not> isSpecialRoom n" by simp
  qed
  have s1: "slice_from (js ''318G1'') (- 2) = js ''G1''"
    and s2: "slice_from (js ''318'') (- 2) = js ''18''"
    by (simp_all add: slice_from_def js_def)
  have m1: "map_of specialRooms (js ''G1'') = Some (js (''G'' @ [CHR 0xE4] @ ''ste WC''))"
    and m2: "map_of specialRooms (js ''18'') = None"
    by (simp_all add: specialRooms_def js_def)
  have 4: "getRoomLabel (js ''318G1'') = js (''G'' @ [CHR 0xE4] @ ''ste WC'')"
    by (simp add: getRoomLabel_def s1 m1) (simp add: truthy_def js_def)
  have 5: "isSpecialRoom (js ''318G1'')"
    using lookup_iff_regex [of "js ''318G1''"] by (simp add: s1 m1)
  have 6: "getRoomLabel (js ''318'') = js ''318''"
    by (simp add: getRoomLabel_def s2 m2)
  have 7: "\<not> isSpecialRoom (js ''318'')"
    using lookup_iff_regex [of "js ''318''"] by (simp add: s2 m2)
  from 1 2 [of n] 3 4 5 6 7 show ?thesis by blast
qed

text \<open>A care bath, a standard room, a room number of one character and the empty one.\<close>

theorem room_classifier_witness:
  "map_of specialRooms (slice_from (js ''4P1'') (- 2)) = Some (js ''Pflegebad'') \<and>
   getRoomLabel (js ''4P1'') = js ''Pflegebad'' \<and> isSpecialRoom (js ''4P1'') \<and>
   map_of specialRooms (slice_from (js ''204'') (- 2)) = None \<and>
   getRoomLabel (js ''204'') = js ''204'' \<and> \<not> isSpecialRoom (js ''204'') \<and>
   length (js ''1'') < 2 \<and> getRoomLabel (js ''1'') = js ''1'' \<and> \<not> isSpecialRoom (js ''1'') \<and>
   getRoomLabel [] = [] \<and> \<not> isSpecialRoom []"
proof -
  have a: "map_of specialRooms (slice_from (js ''4P1'') (- 2)) = Some (js ''Pflegebad'')"
    by (simp add: slice_from_def specialRooms_def js_def)
  have b: "map_of specialRooms (slice_from (js ''204'') (- 2)) = None"
    by (simp add: slice_from_def specialRooms_def js_def)
  have c: "length (js ''1'') < 2" by (simp add: js_def)
  have d: "length ([] :: jsstring) < 2" by simp
  from room_classifier [of "js ''4P1''" "js ''Pflegebad''"]
    room_classifier [of "js ''204''" "[]"]
    room_classifier [of "js ''1''" "[]"]
    room_classifier [of "[]" "[]"] a b c d
  show ?thesis by blast
qed

text \<open>
  Claim C4 as stated gives the label of 318G1 as the English text Guest WC. The table
  of the code has the German label, eight code units with 0xE4 as the second.
\<close>

theorem label_of_318G1_is_German:
  "getRoomLabel (js ''318G1'') \<noteq> js ''Guest WC'' \<and>
   getRoomLabel (js ''318G1'') = [0x47, 0xE4, 0x73, 0x74, 0x65, 0x20, 0x57, 0x43]"
  by (simp add: getRoomLabel_def slice_from_def specialRooms_def truthy_def js_def)

lemma specialRooms_label_not_key:
  "map_of specialRooms k = Some l \<Longrightarrow> map_of specialRooms (slice_from l (- 2)) = None"
  by (auto simp add: specialRooms_def slice_from_def js_def split: if_splits)

lemma getRoomLabel_of_lookup:
  "getRoomLabel n =
     (case map_of specialRooms (slice_from n (- 2)) of Some l \<Rightarrow> l | None \<Rightarrow> n)"
  by (auto simp add: getRoomLabel_def dest: specialRooms_labels_truthy split: option.splits)

lemma getRoomLabel_changes_iff:
  "(getRoomLabel n \<noteq> n) = (map_of specialRooms (slice_from n (- 2)) \<noteq> None)"
proof (cases "map_of specialRooms (slice_from n (- 2))")
  case None
  then show ?thesis by (simp add: getRoomLabel_of_lookup)
next
  case (Some l)
  have "l \<noteq> n"
  proof
    assume "l = n"
    with specialRooms_label_not_key [OF Some] Some show False by simp
  qed
  with Some show ?thesis by (simp add: getRoomLabel_of_lookup)
qed

text \<open>
  Claim C10. For every room number, \<^verbatim>\<open>getRoomLabel\<close> finds a label in its table (and
  returns it, a text that differs from the room number) exactly when the regular
  expression of \<^verbatim>\<open>isSpecialRoom\<close> matches: a room is shown under a label of the table
  if and only if it is special, and under its own number if and only if it is not.
  The lookup of the last two code units finds a label exactly for the four keys G1,
  M1, B1 and P1, and exactly when the regular expression matches.
\<close>

theorem lookup_agrees_with_regex:
  "(getRoomLabel n \<noteq> n) = isSpecialRoom n \<and>
   (isSpecialRoom n \<longrightarrow> map_of specialRooms (slice_from n (- 2)) = Some (getRoomLabel n)) \<and>
   (\<not> isSpecialRoom n \<longrightarrow>
      map_of specialRooms (slice_from n (- 2)) = None \<and> getRoomLabel n = n) \<and>
   (map_of specialRooms (slice_from n (- 2)) \<noteq> None) = isSpecialRoom n \<and>
   (map_of specialRooms (slice_from n (- 2)) \<noteq> None) =
     (slice_from n (- 2) \<in> set [js ''G1'', js ''M1'', js ''B1'', js ''P1''])"
proof -
  have 1: "(map_of specialRooms (slice_from n (- 2)) \<noteq> None) = isSpecialRoom n"
    by (rule lookup_iff_regex)
  have 2: "(getRoomLabel n \<noteq> n) = isSpecialRoom n"
    using 1 getRoomLabel_changes_iff [of n] by simp
  have 3: "isSpecialRoom n \<longrightarrow>
      map_of specialRooms (slice_from n (- 2)) = Some (getRoomLabel n)"
    using 1 by (auto simp add: getRoomLabel_of_lookup split: option.splits)
  have 4: "\<not> isSpecialRoom n \<longrightarrow>
      map_of specialRooms (slice_from n (- 2)) = None \<and> getRoomLabel n = n"
    using 1 2 by auto
  have 5: "(map_of specialRooms k \<noteq> None) =
     (k \<in> set [js ''G1'', js ''M1'', js ''B1'', js ''P1''])" for k
    by (simp add: specialRooms_def js_def)
  from 1 2 3 4 5 show ?thesis by blast
qed

text \<open>A staff toilet, a room that has the key in the middle, and a lower-case key.\<close>

theorem lookup_agrees_with_regex_witness:
  "isSpecialRoom (js ''12M1'') \<and>
   getRoomLabel (js ''12M1'') = js ''Mitarbeiter WC'' \<and>
   getRoomLabel (js ''12M1'') \<noteq> js ''12M1'' \<and>
   map_of specialRooms (slice_from (js ''12M1'') (- 2)) = Some (js ''Mitarbeiter WC'') \<and>
   \<not> isSpecialRoom (js ''M12'') \<and> getRoomLabel (js ''M12'') = js ''M12'' \<and>
   map_of specialRooms (slice_from (js ''M12'') (- 2)) = None \<and>
   \<not> isSpecialRoom (js ''g1'') \<and> getRoomLabel (js ''g1'') = js ''g1'' \<and>
   map_of specialRooms (slice_from (js ''g1'') (- 2)) = None"
proof -
  have a: "isSpecialRoom (js ''12M1'')"
    and b: "\<not> isSpecialRoom (js ''M12'')"
    and c: "\<not> isSpecialRoom (js ''g1'')"
    by (simp_all add: isSpecialRoom_def specialRoomPattern_def js_def)
  have d: "map_of specialRooms (slice_from (js ''12M1'') (- 2)) = Some (js ''Mitarbeiter WC'')"
    by (simp add: slice_from_def specialRooms_def js_def)
  from lookup_agrees_with_regex [of "js ''12M1''"] lookup_agrees_with_regex [of "js ''M12''"]
    lookup_agrees_with_regex [of "js ''g1''"] a b c d
  show ?thesis by auto
qed

end
